theory Spec2Isabelle
  imports Complex_Main "HOL-Library.AList" "HOL-Library.Sublist"
begin

section \<open>JavaScript values used by the job engine\<close>

text \<open>
  A JavaScript \<open>Map\<close> keeps its entries in insertion order: \<open>set\<close> on a present key
  replaces the value in place and on a new key appends an entry, \<open>get\<close> returns the
  value or \<open>undefined\<close>, \<open>delete\<close> removes the entry. That is an association list with
  \<^const>\<open>AList.update\<close>, \<^const>\<open>map_of\<close> and \<^const>\<open>AList.delete\<close>.
  Timestamps (\<open>Date.now()\<close>, milliseconds) are integers and are passed in by the caller
  of each operation; identifiers produced by \<open>uuidv4()\<close> are passed in as well.
\<close>

type_synonym 'v js_map = "(string \<times> 'v) list"

text \<open>\<open>String.prototype.includes\<close>: the argument occurs as a contiguous substring.\<close>

fun str_includes :: "string \<Rightarrow> string \<Rightarrow> bool" where
  "str_includes [] sub = (sub = [])"
| "str_includes (c # cs) sub = (prefix sub (c # cs) \<or> str_includes cs sub)"

text \<open>\<open>path.join(dir, name)\<close> for a directory path and a plain file name.\<close>

definition path_join :: "string \<Rightarrow> string \<Rightarrow> string" where
  "path_join dir name = dir @ ''/'' @ name"

section \<open>Download jobs (routes/download.js)\<close>

text \<open>
  The status strings that the two stores use: \<open>'starting'\<close> and \<open>'downloading'\<close>
  (download jobs), \<open>'processing'\<close> (conversion jobs), \<open>'completed'\<close> and \<open>'failed'\<close>
  (both).
\<close>

datatype job_status = Starting | Downloading | Processing | Completed | Failed

text \<open>
  One entry of \<open>downloadJobs\<close>. The fields that the handlers add later (\<open>batchId\<close>,
  \<open>error\<close>, \<open>outputFile\<close>, \<open>fileSize\<close>, \<open>endTime\<close>) are \<open>undefined\<close> until written, so
  they are options.
\<close>

record download_job =
  status :: job_status
  url :: string
  format :: string
  quality :: string
  batchId :: "string option"
  startTime :: int
  progress :: int
  error :: "string option"
  outputFile :: "string option"
  fileSize :: "nat option"
  endTime :: "int option"

type_synonym download_jobs = "download_job js_map"

text \<open>
  \<open>m.set(jobId, {...m.get(jobId), f: v, ...})\<close>: read the entry, overwrite some
  fields, store it back. The runners only execute it for an entry that was written
  when the job was created and that the sweeper cannot have removed (it has no end
  time yet); for an absent id JavaScript would store an object holding the overwritten
  fields alone, which the record types here do not express, so the map is returned as
  it is and every theorem below starts from a present entry.
\<close>

definition spread_set :: "string \<Rightarrow> ('v \<Rightarrow> 'v) \<Rightarrow> 'v js_map \<Rightarrow> 'v js_map" where
  "spread_set jobId f m =
     (case map_of m jobId of
        None \<Rightarrow> m
      | Some v \<Rightarrow> AList.update jobId (f v) m)"

subsection \<open>The progress estimator\<close>

text \<open>
  \<open>Math.min(90, Math.floor(elapsed / 1000) * 2)\<close> with
  \<open>elapsed = Date.now() - currentJob.startTime\<close>; integer \<open>div\<close> rounds towards minus
  infinity, as \<open>Math.floor\<close> of the quotient does.
\<close>

definition estimatedProgress :: "int \<Rightarrow> int \<Rightarrow> int" where
  "estimatedProgress now start = min 90 (((now - start) div 1000) * 2)"

text \<open>
  The callback of \<open>progressTimer\<close>, run by \<open>setInterval\<close> every 1000 ms: it writes the
  estimate only for a present job whose status is \<open>'downloading'\<close>.
\<close>

definition progressTimer :: "string \<Rightarrow> int \<Rightarrow> download_jobs \<Rightarrow> download_jobs" where
  "progressTimer jobId now downloadJobs =
     (case map_of downloadJobs jobId of
        None \<Rightarrow> downloadJobs
      | Some currentJob \<Rightarrow>
          if status currentJob = Downloading
          then AList.update jobId
                 (currentJob\<lparr>progress := estimatedProgress now (startTime currentJob)\<rparr>) downloadJobs
          else downloadJobs)"

subsection \<open>Fetcher options\<close>

text \<open>
  The options object handed to \<open>ytDlpWrap.execPromise\<close>. A key that the code does not
  set is \<open>None\<close>; \<open>opt_output\<close> and \<open>opt_format\<close> are the keys \<open>options.output\<close>
  and \<open>options.format\<close>.
\<close>

record ytdlp_options =
  opt_output :: string
  noPlaylist :: bool
  extractAudio :: "bool option"
  audioFormat :: "string option"
  audioQuality :: "string option"
  opt_format :: "string option"
  recodeVideo :: "string option"

text \<open>The \<open>switch (quality)\<close> of \<open>downloadVideo\<close>, starting from \<open>'best'\<close>.\<close>

definition formatSelector :: "string \<Rightarrow> string" where
  "formatSelector q =
     (if q = ''480p'' then ''best[height<=480]''
      else if q = ''720p'' then ''best[height<=720]''
      else if q = ''1080p'' then ''best[height<=1080]''
      else if q = ''1440p'' then ''best[height<=1440]''
      else if q = ''2160p'' then ''best[height<=2160]''
      else ''best'')"

text \<open>
  \<open>timestamp\<close> is the decimal rendering of \<open>Date.now()\<close> that the template literal
  produces.
\<close>

definition outputTemplate :: "string \<Rightarrow> string \<Rightarrow> string \<Rightarrow> string" where
  "outputTemplate outputDir jobId timestamp =
     path_join outputDir (jobId @ ''-'' @ timestamp @ ''.%(ext)s'')"

definition build_options :: "string \<Rightarrow> string \<Rightarrow> string \<Rightarrow> ytdlp_options" where
  "build_options template fmt q =
     (let options = \<lparr>opt_output = template, noPlaylist = True, extractAudio = None,
                      audioFormat = None, audioQuality = None, opt_format = None,
                      recodeVideo = None\<rparr>
      in if fmt = ''mp3''
         then options\<lparr>extractAudio := Some True, audioFormat := Some ''mp3'',
                       audioQuality := Some ''192K''\<rparr>
         else (let options' = options\<lparr>opt_format := Some (formatSelector q)\<rparr>
               in if fmt \<noteq> ''best'' then options'\<lparr>recodeVideo := Some fmt\<rparr>
                  else options'))"

subsection \<open>Finding the downloaded file\<close>

text \<open>
  What \<open>fs.statSync\<close> returns for a directory entry. The code reads \<open>isFile()\<close> and
  \<open>size\<close>; the modification time is part of every \<open>Stats\<close> object and is never read.
\<close>

record stats =
  isFile :: bool
  st_size :: nat
  mtimeMs :: int

text \<open>
  A directory entry as the runner sees it: its name, and the result of \<open>statSync\<close> on
  it, \<open>Inl msg\<close> when the call throws \<open>Error(msg)\<close>. A listing is what \<open>readdirSync\<close>
  returns, in its order.
\<close>

type_synonym dirent = "string \<times> (string + stats)"

text \<open>
  The \<open>allFiles.filter\<close> callback calls \<open>statSync\<close> on every entry, in order, before
  it looks at the name, so the first entry whose \<open>statSync\<close> throws aborts the scan.
  The matching entries are kept in the listing's order.
\<close>

fun downloadedFiles :: "string \<Rightarrow> dirent list \<Rightarrow> string + (string \<times> stats) list" where
  "downloadedFiles jobId [] = Inr []"
| "downloadedFiles jobId ((file, st) # rest) =
     (case st of
        Inl msg \<Rightarrow> Inl msg
      | Inr s \<Rightarrow>
          (case downloadedFiles jobId rest of
             Inl msg \<Rightarrow> Inl msg
           | Inr found \<Rightarrow>
               Inr (if isFile s \<and> str_includes file jobId then (file, s) # found else found)))"

text \<open>
  The code after \<open>await\<close>: \<open>downloadedFiles[0]\<close> is the result, its size is read with a
  second \<open>statSync\<close> on the same file. \<open>Inl msg\<close> is a thrown \<open>Error(msg)\<close>.
\<close>

definition locate_output :: "string \<Rightarrow> string \<Rightarrow> string + dirent list \<Rightarrow> string + (string \<times> nat)" where
  "locate_output jobId outputDir listing =
     (case listing of
        Inl msg \<Rightarrow> Inl msg
      | Inr allFiles \<Rightarrow>
          (case downloadedFiles jobId allFiles of
             Inl msg \<Rightarrow> Inl msg
           | Inr [] \<Rightarrow> Inl ''Downloaded file not found''
           | Inr ((file, s) # _) \<Rightarrow> Inr (path_join outputDir file, st_size s)))"

subsection \<open>The runner \<open>downloadVideo\<close>\<close>

text \<open>
  How the awaited \<open>execPromise\<close> settles: it rejects with a message, or it resolves
  and the runner then reads the output directory (\<open>Inl msg\<close> when \<open>readdirSync\<close>
  throws).
\<close>

datatype tool_outcome = Rejected string | Resolved "string + dirent list"

definition downloadVideo_begin :: "string \<Rightarrow> download_jobs \<Rightarrow> download_jobs" where
  "downloadVideo_begin jobId downloadJobs =
     spread_set jobId (\<lambda>job. job\<lparr>status := Downloading\<rparr>) downloadJobs"

text \<open>
  The rest of \<open>downloadVideo\<close> once the tool has settled. \<open>Inl msg\<close>: the promise of
  \<open>downloadVideo\<close> rejects with \<open>Error(msg)\<close>; \<open>Inr\<close>: it resolves, with the store it
  has written.
\<close>

definition downloadVideo_settle ::
  "string \<Rightarrow> string \<Rightarrow> tool_outcome \<Rightarrow> int \<Rightarrow> download_jobs \<Rightarrow> string + download_jobs" where
  "downloadVideo_settle jobId outputDir outcome now downloadJobs =
     (case outcome of
        Rejected msg \<Rightarrow> Inl (''yt-dlp failed: '' @ msg)
      | Resolved listing \<Rightarrow>
          (case locate_output jobId outputDir listing of
             Inl msg \<Rightarrow> Inl msg
           | Inr (file, sz) \<Rightarrow>
               Inr (spread_set jobId
                      (\<lambda>job. job\<lparr>status := Completed, outputFile := Some file,
                                  fileSize := Some sz, endTime := Some now,
                                  progress := 100\<rparr>)
                      downloadJobs)))"

text \<open>The \<open>.catch\<close> callback that both request handlers attach to \<open>downloadVideo\<close>.\<close>

definition catch_failed :: "string \<Rightarrow> string \<Rightarrow> int \<Rightarrow> download_jobs \<Rightarrow> download_jobs" where
  "catch_failed jobId msg now downloadJobs =
     spread_set jobId (\<lambda>job. job\<lparr>status := Failed, error := Some msg, endTime := Some now\<rparr>)
       downloadJobs"

definition job_settled ::
  "string \<Rightarrow> string \<Rightarrow> tool_outcome \<Rightarrow> int \<Rightarrow> download_jobs \<Rightarrow> download_jobs" where
  "job_settled jobId outputDir outcome now downloadJobs =
     (case downloadVideo_settle jobId outputDir outcome now downloadJobs of
        Inl msg \<Rightarrow> catch_failed jobId msg now downloadJobs
      | Inr downloadJobs' \<Rightarrow> downloadJobs')"

text \<open>
  What the event loop delivers for one running job: a timer tick at a time, or the
  settling of the tool at a time. A promise settles once, so a job's life is ticks,
  then at most one settling, then the ticks of a timer that was not cleared
  (\<open>clearInterval\<close> is only reached when the tool resolves).
\<close>

datatype dl_event = Tick int | Settle tool_outcome int

fun dl_step :: "string \<Rightarrow> string \<Rightarrow> dl_event \<Rightarrow> download_jobs \<Rightarrow> download_jobs" where
  "dl_step jobId outputDir (Tick now) downloadJobs = progressTimer jobId now downloadJobs"
| "dl_step jobId outputDir (Settle outcome now) downloadJobs =
     job_settled jobId outputDir outcome now downloadJobs"

definition lifetime :: "int list \<Rightarrow> (tool_outcome \<times> int \<times> int list) option \<Rightarrow> dl_event list" where
  "lifetime ticks fin =
     map Tick ticks @
     (case fin of
        None \<Rightarrow> []
      | Some (outcome, now, late) \<Rightarrow> Settle outcome now # map Tick late)"

text \<open>The successive stores of a run: the first one, then the one after each event.\<close>

fun run_states :: "('e \<Rightarrow> 's \<Rightarrow> 's) \<Rightarrow> 's \<Rightarrow> 'e list \<Rightarrow> 's list" where
  "run_states step s [] = [s]"
| "run_states step s (e # es) = s # run_states step (step e s) es"

section \<open>Conversion jobs (services/ffmpegService.js)\<close>

text \<open>
  One entry of \<open>jobs\<close>; the fields are \<open>status\<close>, \<open>inputFile\<close>, \<open>outputFile\<close>,
  \<open>startTime\<close>, \<open>type\<close>, \<open>error\<close> and \<open>endTime\<close> (prefixed where the name is taken by
  a download job's field).
\<close>

record job =
  job_status :: job_status
  inputFile :: string
  job_outputFile :: string
  job_startTime :: int
  job_type :: string
  job_error :: "string option"
  job_endTime :: "int option"

text \<open>One entry of \<open>progressTracking\<close>. JavaScript numbers are rationals here.\<close>

record progress_snapshot =
  percent :: int
  currentFps :: rat
  currentKbps :: rat
  targetSize :: rat
  timemark :: string

record service =
  jobs :: "job js_map"
  progressTracking :: "progress_snapshot js_map"

text \<open>
  A \<open>'progress'\<close> event of the transcoder; a field is \<open>None\<close> when it is \<open>undefined\<close>
  or \<open>NaN\<close>.
\<close>

record ffmpeg_progress =
  ev_percent :: "rat option"
  ev_currentFps :: "rat option"
  ev_currentKbps :: "rat option"
  ev_targetSize :: "rat option"
  ev_timemark :: "string option"

text \<open>\<open>x || 0\<close> on a number, \<open>s || d\<close> on a string, and \<open>Math.round\<close>.\<close>

definition or_zero :: "rat option \<Rightarrow> rat" where
  "or_zero x = (case x of None \<Rightarrow> 0 | Some v \<Rightarrow> v)"

definition or_default :: "string option \<Rightarrow> string \<Rightarrow> string" where
  "or_default x d = (case x of None \<Rightarrow> d | Some s \<Rightarrow> if s = [] then d else s)"

definition Math_round :: "rat \<Rightarrow> int" where
  "Math_round x = \<lfloor>x + 1 / 2\<rfloor>"

text \<open>
  \<open>convertVideo\<close> up to \<open>command.run()\<close>: both maps get the job's first entries. The
  quality and codec only shape the transcoder's command line. \<open>extractAudio\<close> tracks its
  job in the same way (type \<open>'audio_extraction'\<close>, a snapshot without frame rate and
  target size) and is not repeated here.
\<close>

definition convertVideo_begin ::
  "string \<Rightarrow> string \<Rightarrow> string \<Rightarrow> string \<Rightarrow> int \<Rightarrow> service \<Rightarrow> service" where
  "convertVideo_begin outputDir input fmt jobId now svc =
     svc\<lparr>jobs := AList.update jobId
                     \<lparr>job_status = Processing, inputFile = input,
                      job_outputFile = path_join outputDir (jobId @ ''.'' @ fmt),
                      job_startTime = now, job_type = ''video_conversion'',
                      job_error = None, job_endTime = None\<rparr>
                     (jobs svc),
          progressTracking := AList.update jobId
                     \<lparr>percent = 0, currentFps = 0, currentKbps = 0, targetSize = 0,
                      timemark = ''00:00:00.00''\<rparr>
                     (progressTracking svc)\<rparr>"

text \<open>The three event callbacks of \<open>convertVideo\<close>.\<close>

definition on_progress :: "string \<Rightarrow> ffmpeg_progress \<Rightarrow> service \<Rightarrow> service" where
  "on_progress jobId p svc =
     svc\<lparr>progressTracking := AList.update jobId
            \<lparr>percent = Math_round (or_zero (ev_percent p)),
             currentFps = or_zero (ev_currentFps p),
             currentKbps = or_zero (ev_currentKbps p),
             targetSize = or_zero (ev_targetSize p),
             timemark = or_default (ev_timemark p) ''00:00:00.00''\<rparr>
            (progressTracking svc)\<rparr>"

definition on_end :: "string \<Rightarrow> int \<Rightarrow> service \<Rightarrow> service" where
  "on_end jobId now svc =
     svc\<lparr>jobs := spread_set jobId
                     (\<lambda>j. j\<lparr>job_status := Completed, job_endTime := Some now\<rparr>) (jobs svc),
          progressTracking := spread_set jobId (\<lambda>p. p\<lparr>percent := 100\<rparr>)
                     (progressTracking svc)\<rparr>"

definition on_error :: "string \<Rightarrow> string \<Rightarrow> int \<Rightarrow> service \<Rightarrow> service" where
  "on_error jobId msg now svc =
     svc\<lparr>jobs := spread_set jobId
                     (\<lambda>j. j\<lparr>job_status := Failed, job_error := Some msg,
                             job_endTime := Some now\<rparr>) (jobs svc)\<rparr>"

text \<open>
  The transcoder emits progress events and then at most one of \<open>'end'\<close> and
  \<open>'error'\<close>, each stamped here with the \<open>Date.now()\<close> its callback reads.
\<close>

datatype ffmpeg_result = Ended int | Errored string int

datatype ffmpeg_event = Progress ffmpeg_progress | Finish ffmpeg_result

fun ffmpeg_step :: "string \<Rightarrow> ffmpeg_event \<Rightarrow> service \<Rightarrow> service" where
  "ffmpeg_step jobId (Progress p) svc = on_progress jobId p svc"
| "ffmpeg_step jobId (Finish (Ended now)) svc = on_end jobId now svc"
| "ffmpeg_step jobId (Finish (Errored msg now)) svc = on_error jobId msg now svc"

definition conversion_lifetime :: "ffmpeg_progress list \<Rightarrow> ffmpeg_result option \<Rightarrow> ffmpeg_event list" where
  "conversion_lifetime ps fin =
     map Progress ps @ (case fin of None \<Rightarrow> [] | Some r \<Rightarrow> [Finish r])"

text \<open>\<open>getProgress\<close> and \<open>getOutputFile\<close>; \<open>None\<close> is \<open>null\<close>.\<close>

datatype progress_view = Snapshot progress_snapshot | PercentOnly int

record progress_report =
  r_jobId :: string
  r_status :: job_status
  r_progress :: progress_view
  r_startTime :: int
  r_endTime :: "int option"
  r_error :: "string option"

definition getProgress :: "string \<Rightarrow> service \<Rightarrow> progress_report option" where
  "getProgress jobId svc =
     (case map_of (jobs svc) jobId of
        None \<Rightarrow> None
      | Some j \<Rightarrow>
          Some \<lparr>r_jobId = jobId, r_status = job_status j,
                r_progress = (case map_of (progressTracking svc) jobId of
                                None \<Rightarrow> PercentOnly 0
                              | Some p \<Rightarrow> Snapshot p),
                r_startTime = job_startTime j, r_endTime = job_endTime j,
                r_error = job_error j\<rparr>)"

definition getOutputFile :: "string \<Rightarrow> service \<Rightarrow> string option" where
  "getOutputFile jobId svc =
     (case map_of (jobs svc) jobId of None \<Rightarrow> None | Some j \<Rightarrow> Some (job_outputFile j))"

section \<open>The retention sweeps\<close>








section \<open>Request handlers\<close>

subsection \<open>The download routes (routes/download.js)\<close>

datatype response =
    DownloadStarted string
  | BatchStarted string "string list" nat
  | ProgressReport int job_status "string option" "(string \<times> string \<times> nat option) option"
  | SendFile string string
  | ConversionStarted string string
  | ConversionProgress progress_report
  | Failure nat string "string option"


text \<open>
  The responses: \<open>DownloadStarted jobId\<close> is the 200 reply of \<open>POST /\<close>,
  \<open>BatchStarted batchId jobIds n\<close> that of \<open>POST /batch\<close> for \<open>n\<close> URLs,
  \<open>ProgressReport progress status error file\<close> that of \<open>GET /progress/:jobId\<close> (with
  \<open>downloadUrl\<close>, \<open>filename\<close>, \<open>fileSize\<close> when present), \<open>SendFile filename path\<close> a
  file download, \<open>ConversionStarted jobId outputFile\<close> the 200 reply of \<open>POST /video\<close>,
  \<open>ConversionProgress report\<close> that of the conversion routes' \<open>GET /progress/:jobId\<close>,
  and \<open>Failure code error message\<close> every \<open>res.status(code).json({success: false, ...})\<close>.
\<close>

fun http_status :: "response \<Rightarrow> nat" where
  "http_status (Failure code _ _) = code"
| "http_status _ = 200"

text \<open>\<open>path.basename\<close>: the part after the last separator.\<close>

definition basename :: "string \<Rightarrow> string" where
  "basename p = rev (takeWhile (\<lambda>c. c \<noteq> CHR ''/'') (rev p))"

definition new_download_job :: "string \<Rightarrow> string \<Rightarrow> string \<Rightarrow> string option \<Rightarrow> int \<Rightarrow> download_job" where
  "new_download_job u fmt q batch now =
     \<lparr>status = Starting, url = u, format = fmt, quality = q, batchId = batch,
      startTime = now, progress = 0, error = None, outputFile = None, fileSize = None,
      endTime = None\<rparr>"

text \<open>
  What both handlers do per job before they answer: store the new entry, then call
  \<open>downloadVideo\<close>, which runs up to its \<open>await\<close> at once (status \<open>'downloading'\<close>,
  options built, timer installed, tool started).
\<close>

definition start_download ::
  "string \<Rightarrow> string \<Rightarrow> string \<Rightarrow> string \<Rightarrow> string option \<Rightarrow> int \<Rightarrow> download_jobs \<Rightarrow> download_jobs" where
  "start_download jobId u fmt q batch now downloadJobs =
     downloadVideo_begin jobId
       (AList.update jobId (new_download_job u fmt q batch now) downloadJobs)"

text \<open>
  \<open>POST /\<close>. \<open>mkdir\<close> is \<open>Some msg\<close> when creating the download directory throws,
  which the handler's \<open>catch\<close> turns into a 500.
\<close>

definition post_download ::
  "string option \<Rightarrow> string \<Rightarrow> string \<Rightarrow> string \<Rightarrow> string \<Rightarrow> int \<Rightarrow> download_jobs
     \<Rightarrow> response \<times> download_jobs" where
  "post_download mkdir jobId u fmt q now downloadJobs =
     (case mkdir of
        Some msg \<Rightarrow> (Failure 500 ''Failed to start download'' (Some msg), downloadJobs)
      | None \<Rightarrow> (DownloadStarted jobId, start_download jobId u fmt q None now downloadJobs))"

text \<open>
  The loop of \<open>POST /batch\<close>; \<open>uuid n\<close> is the value of the \<open>n\<close>-th call of \<open>uuidv4()\<close>
  in the request.
\<close>

fun batch_loop ::
  "string list \<Rightarrow> (nat \<Rightarrow> string) \<Rightarrow> nat \<Rightarrow> string \<Rightarrow> string \<Rightarrow> string \<Rightarrow> int \<Rightarrow> download_jobs
     \<Rightarrow> string list \<times> download_jobs" where
  "batch_loop [] uuid n fmt q batch now downloadJobs = ([], downloadJobs)"
| "batch_loop (u # us) uuid n fmt q batch now downloadJobs =
     (let jobId = uuid n;
          (jobIds, downloadJobs') =
             batch_loop us uuid (Suc n) fmt q batch now
               (start_download jobId u fmt q (Some batch) now downloadJobs)
      in (jobId # jobIds, downloadJobs'))"

text \<open>
  \<open>POST /batch\<close>. \<open>urls\<close> is \<open>None\<close> when \<open>req.body.urls\<close> is missing or not an array;
  \<open>fmt\<close> and \<open>q\<close> are \<open>None\<close> when the body leaves them out (defaults \<open>'mp4'\<close>,
  \<open>'720p'\<close>).
\<close>

definition post_batch ::
  "string list option \<Rightarrow> string option \<Rightarrow> string option \<Rightarrow> string option \<Rightarrow> (nat \<Rightarrow> string) \<Rightarrow> int
     \<Rightarrow> download_jobs \<Rightarrow> response \<times> download_jobs" where
  "post_batch urls fmt q mkdir uuid now downloadJobs =
     (case urls of
        None \<Rightarrow> (Failure 400 ''URLs array is required'' None, downloadJobs)
      | Some us \<Rightarrow>
          if length us = 0 then (Failure 400 ''URLs array is required'' None, downloadJobs)
          else if length us > 10
          then (Failure 400 ''Maximum 10 URLs allowed per batch'' None, downloadJobs)
          else (case mkdir of
                  Some msg \<Rightarrow>
                    (Failure 500 ''Failed to start batch download'' (Some msg), downloadJobs)
                | None \<Rightarrow>
                    (let batch = uuid 0;
                         (jobIds, downloadJobs') =
                            batch_loop us uuid 1
                              (case fmt of None \<Rightarrow> ''mp4'' | Some f \<Rightarrow> f)
                              (case q of None \<Rightarrow> ''720p'' | Some x \<Rightarrow> x)
                              batch now downloadJobs
                     in (BatchStarted batch jobIds (length us), downloadJobs'))))"

text \<open>\<open>GET /progress/:jobId\<close> of the download routes.\<close>

definition get_download_progress :: "string \<Rightarrow> download_jobs \<Rightarrow> response" where
  "get_download_progress jobId downloadJobs =
     (case map_of downloadJobs jobId of
        None \<Rightarrow> Failure 404 ''Job not found'' None
      | Some job \<Rightarrow>
          ProgressReport (progress job) (status job) (error job)
            (case outputFile job of
               None \<Rightarrow> None
             | Some file \<Rightarrow>
                 if status job = Completed \<and> file \<noteq> []
                 then Some (''/api/download/file/'' @ jobId, basename file, fileSize job)
                 else None))"

text \<open>
  \<open>GET /file/:jobId\<close>; \<open>disk\<close> is the set of paths for which \<open>fs.existsSync\<close> holds.
\<close>

definition get_download_file :: "string \<Rightarrow> string set \<Rightarrow> download_jobs \<Rightarrow> response" where
  "get_download_file jobId disk downloadJobs =
     (case map_of downloadJobs jobId of
        None \<Rightarrow> Failure 404 ''File not ready or job not found'' None
      | Some job \<Rightarrow>
          if status job = Completed
          then (case outputFile job of
                  None \<Rightarrow> Failure 404 ''File not found on disk'' None
                | Some file \<Rightarrow>
                    if file \<noteq> [] \<and> file \<in> disk then SendFile (basename file) file
                    else Failure 404 ''File not found on disk'' None)
          else Failure 404 ''File not ready or job not found'' None)"

subsection \<open>The conversion routes (routes/convert.js)\<close>

text \<open>
  \<open>POST /video\<close>. The handler awaits \<open>convertVideo\<close>, so it answers when the
  transcoder has emitted \<open>'end'\<close> or \<open>'error'\<close>; \<open>ps\<close> are the progress events until
  then. \<open>fmt\<close> is \<open>req.body.format\<close>, defaulting to \<open>'mp4'\<close>.
\<close>

definition post_video ::
  "string \<Rightarrow> string \<Rightarrow> string option \<Rightarrow> string \<Rightarrow> int \<Rightarrow> ffmpeg_progress list \<Rightarrow> ffmpeg_result
     \<Rightarrow> service \<Rightarrow> response \<times> service" where
  "post_video outputDir input fmt jobId now ps fin svc =
     (let svc' = fold (ffmpeg_step jobId) (conversion_lifetime ps (Some fin))
                   (convertVideo_begin outputDir input (or_default fmt ''mp4'') jobId now svc)
      in (case fin of
            Ended _ \<Rightarrow>
              (ConversionStarted jobId
                 (path_join outputDir (jobId @ ''.'' @ or_default fmt ''mp4'')), svc')
          | Errored msg _ \<Rightarrow> (Failure 500 ''Video conversion failed'' (Some msg), svc')))"

text \<open>\<open>GET /progress/:jobId\<close> and \<open>GET /download/:jobId\<close> of the conversion routes.\<close>

definition get_conversion_progress :: "string \<Rightarrow> service \<Rightarrow> response" where
  "get_conversion_progress jobId svc =
     (case getProgress jobId svc of
        None \<Rightarrow> Failure 404 ''Job not found'' None
      | Some report \<Rightarrow> ConversionProgress report)"

definition get_conversion_file :: "string \<Rightarrow> string set \<Rightarrow> service \<Rightarrow> response" where
  "get_conversion_file jobId disk svc =
     (case getOutputFile jobId svc of
        None \<Rightarrow> Failure 404 ''File not found'' None
      | Some filePath \<Rightarrow>
          if filePath \<noteq> [] \<and> filePath \<in> disk then SendFile (basename filePath) filePath
          else Failure 404 ''File not found'' None)"

section \<open>The life of one job\<close>

text \<open>
  The entries that a job has in the successive stores of a run, oldest first (a store
  that does not hold the job contributes nothing).
\<close>

definition history :: "string \<Rightarrow> 'v js_map list \<Rightarrow> 'v list" where
  "history jobId stores = List.map_filter (\<lambda>m. map_of m jobId) stores"

text \<open>
  The stores that a download job passes through: the one the request handler leaves
  when it answers, then one after every event of the job's life.
\<close>

definition download_life ::
  "string \<Rightarrow> string \<Rightarrow> string \<Rightarrow> string \<Rightarrow> string option \<Rightarrow> int \<Rightarrow> string \<Rightarrow> int list
     \<Rightarrow> (tool_outcome \<times> int \<times> int list) option \<Rightarrow> download_jobs \<Rightarrow> download_jobs list" where
  "download_life jobId u fmt q batch t0 outputDir ticks fin downloadJobs =
     run_states (dl_step jobId outputDir)
       (start_download jobId u fmt q batch t0 downloadJobs) (lifetime ticks fin)"

text \<open>
  What the settling of the tool makes of the job's own entry; \<open>map_of_job_settled\<close>
  below shows that \<open>job_settled\<close> stores exactly this.
\<close>

definition settled_entry :: "string \<Rightarrow> string \<Rightarrow> tool_outcome \<Rightarrow> int \<Rightarrow> download_job \<Rightarrow> download_job" where
  "settled_entry jobId outputDir outcome now j =
     (case downloadVideo_settle jobId outputDir outcome now [(jobId, j)] of
        Inl msg \<Rightarrow> j\<lparr>status := Failed, error := Some msg, endTime := Some now\<rparr>
      | Inr downloadJobs' \<Rightarrow>
          (case map_of downloadJobs' jobId of None \<Rightarrow> j | Some j' \<Rightarrow> j'))"

text \<open>
  The states of the service that a conversion job passes through: the one after
  \<open>convertVideo\<close> has started the transcoder, then one after every event.
\<close>

definition conversion_life ::
  "string \<Rightarrow> string \<Rightarrow> string \<Rightarrow> string \<Rightarrow> int \<Rightarrow> ffmpeg_progress list \<Rightarrow> ffmpeg_result option
     \<Rightarrow> service \<Rightarrow> service list" where
  "conversion_life outputDir input fmt jobId t0 ps fin svc =
     run_states (ffmpeg_step jobId)
       (convertVideo_begin outputDir input fmt jobId t0 svc) (conversion_lifetime ps fin)"

section \<open>Facts about the map operations\<close>

lemma map_of_spread_set:
  "map_of (spread_set jobId f m) k =
     (if k = jobId then map_option f (map_of m jobId) else map_of m k)"
  by (cases "map_of m jobId") (simp_all add: spread_set_def update_conv')

lemma length_update_le: "length (AList.update k v al) \<le> Suc (length al)"
  by (induction al) auto

lemma length_update_present:
  "map_of al k = Some w \<Longrightarrow> length (AList.update k v al) = length al"
  by (induction al) (auto split: if_splits)

lemma length_spread_set: "length (spread_set k f m) = length m"
  by (simp add: spread_set_def length_update_present split: option.splits)

section \<open>The estimator's values\<close>

text \<open>
  C1. While a download is in flight (the job is present with status \<open>'downloading'\<close>),
  a timer tick at time \<open>now\<close> records the progress
  \<open>min(90, 2 * elapsedSeconds)\<close>, where \<open>elapsedSeconds\<close> is the whole number of seconds
  between the job's \<open>startTime\<close> and \<open>now\<close>; the recorded value is never above 90, and
  nothing else of the job changes.
\<close>

theorem estimator_tick:
  assumes "map_of dj jobId = Some job" and "status job = Downloading"
  shows "map_of (progressTimer jobId now dj) jobId =
           Some (job\<lparr>progress := min 90 (2 * ((now - startTime job) div 1000))\<rparr>)
         \<and> progress (the (map_of (progressTimer jobId now dj) jobId)) \<le> 90
         \<and> estimatedProgress now (startTime job) \<le> 90"
  using assms by (simp add: progressTimer_def estimatedProgress_def update_conv' mult.commute)

theorem estimator_tick_witness:
  "map_of (progressTimer ''j1'' 1007500
       [(''j1'', \<lparr>status = Downloading, url = ''https://youtu.be/x'', format = ''mp4'',
                 quality = ''720p'', batchId = None, startTime = 1000000, progress = 0,
                 error = None, outputFile = None, fileSize = None, endTime = None\<rparr>)]) ''j1''
   = Some \<lparr>status = Downloading, url = ''https://youtu.be/x'', format = ''mp4'',
           quality = ''720p'', batchId = None, startTime = 1000000, progress = 14,
           error = None, outputFile = None, fileSize = None, endTime = None\<rparr>"
  using estimator_tick [of "[(''j1'', \<lparr>status = Downloading, url = ''https://youtu.be/x'',
                 format = ''mp4'', quality = ''720p'', batchId = None, startTime = 1000000,
                 progress = 0, error = None, outputFile = None, fileSize = None,
                 endTime = None\<rparr>)]" "''j1''" _ 1007500]
  by simp

section \<open>Format and quality mapping of the fetcher\<close>

text \<open>
  C8. For a download whose format is not the audio format \<open>'mp3'\<close>, each quality preset
  becomes the maximum-height selector \<open>best[height<=H]\<close> (480p, 720p, 1080p, 1440p and
  2160p give H = 480, 720, 1080, 1440 and 2160) and no audio extraction is asked for; for
  the format \<open>'mp3'\<close>, whatever the quality, the options ask for audio extraction with
  the fixed container \<open>'mp3'\<close> and the fixed bitrate preset \<open>'192K'\<close> and carry no video
  selector.
\<close>

theorem quality_selects_max_height:
  assumes "fmt \<noteq> ''mp3''"
  shows "opt_format (build_options t fmt ''480p'') = Some ''best[height<=480]''
       \<and> opt_format (build_options t fmt ''720p'') = Some ''best[height<=720]''
       \<and> opt_format (build_options t fmt ''1080p'') = Some ''best[height<=1080]''
       \<and> opt_format (build_options t fmt ''1440p'') = Some ''best[height<=1440]''
       \<and> opt_format (build_options t fmt ''2160p'') = Some ''best[height<=2160]''
       \<and> extractAudio (build_options t fmt q) = None
       \<and> build_options t ''mp3'' q =
            \<lparr>opt_output = t, noPlaylist = True, extractAudio = Some True,
             audioFormat = Some ''mp3'', audioQuality = Some ''192K'', opt_format = None,
             recodeVideo = None\<rparr>"
  using assms by (simp add: build_options_def formatSelector_def Let_def)

theorem quality_selects_max_height_witness:
  "build_options ''/dl/j1-17.%(ext)s'' ''webm'' ''1080p'' =
     \<lparr>opt_output = ''/dl/j1-17.%(ext)s'', noPlaylist = True, extractAudio = None,
      audioFormat = None, audioQuality = None, opt_format = Some ''best[height<=1080]'',
      recodeVideo = Some ''webm''\<rparr>
   \<and> audioQuality (build_options ''/dl/j1-17.%(ext)s'' ''mp3'' ''1080p'') = Some ''192K''"
  using quality_selects_max_height [of "''webm''" "''/dl/j1-17.%(ext)s''" "''1080p''"]
  by (simp add: build_options_def Let_def)

section \<open>Queries for unknown identifiers\<close>

text \<open>
  C9. For an identifier that is in neither store, every query returns a not-found
  result: the two progress routes answer 404 \<open>Job not found\<close>, the two file routes
  answer 404, and the service's \<open>getProgress\<close> and \<open>getOutputFile\<close> return \<open>null\<close>. Each
  query is a total function whose not-found branch reads nothing but the map, so no
  exception is raised on that path.
\<close>

theorem unknown_id_not_found:
  assumes "map_of dj jobId = None" and "map_of (jobs svc) jobId = None"
  shows "get_download_progress jobId dj = Failure 404 ''Job not found'' None
       \<and> get_download_file jobId disk dj = Failure 404 ''File not ready or job not found'' None
       \<and> getProgress jobId svc = None
       \<and> get_conversion_progress jobId svc = Failure 404 ''Job not found'' None
       \<and> getOutputFile jobId svc = None
       \<and> get_conversion_file jobId disk svc = Failure 404 ''File not found'' None"
  using assms
  by (simp add: get_download_progress_def get_download_file_def getProgress_def
      get_conversion_progress_def getOutputFile_def get_conversion_file_def)

theorem unknown_id_not_found_witness:
  "http_status (get_download_progress ''nobody''
       [(''j1'', new_download_job ''https://youtu.be/x'' ''mp4'' ''720p'' None 1000)]) = 404
   \<and> http_status (get_conversion_file ''nobody'' {''/out/j2.mp4''}
       \<lparr>jobs = [], progressTracking = []\<rparr>) = 404"
  using unknown_id_not_found
     [of "[(''j1'', new_download_job ''https://youtu.be/x'' ''mp4'' ''720p'' None 1000)]"
         "''nobody''" "\<lparr>jobs = [], progressTracking = []\<rparr>" "{''/out/j2.mp4''}"]
  by simp

section \<open>The size bound of a batch\<close>

lemma length_start_download:
  "length (start_download jobId u fmt q b now dj) \<le> Suc (length dj)"
  by (simp add: start_download_def downloadVideo_begin_def length_spread_set length_update_le)

lemma batch_loop_lengths:
  "batch_loop us uuid n fmt q b now dj = (ids, dj') \<Longrightarrow>
     length ids = length us \<and> length dj' \<le> length dj + length us"
proof (induction us arbitrary: n dj ids dj')
  case Nil
  then show ?case by simp
next
  case (Cons u us)
  obtain ids1 dj1 where r: "batch_loop us uuid (Suc n) fmt q b now
       (start_download (uuid n) u fmt q (Some b) now dj) = (ids1, dj1)"
    by (cases "batch_loop us uuid (Suc n) fmt q b now
       (start_download (uuid n) u fmt q (Some b) now dj)")
  from Cons.IH [OF r] Cons.prems r length_start_download [of "uuid n" u fmt q "Some b" now dj]
  show ?case by (auto simp: Let_def)
qed

text \<open>
  C10. \<open>POST /batch\<close> answers 400 and leaves the store as it was when the URL array is
  missing, when it is empty, and when it holds more than 10 URLs; whenever it answers
  that a batch was started, the request held between 1 and 10 URLs, one job id was issued
  per URL, and the store grew by at most 10 entries.
\<close>

theorem batch_size_bound:
  "post_batch None fmt q mkdir uuid now dj = (Failure 400 ''URLs array is required'' None, dj)
   \<and> post_batch (Some []) fmt q mkdir uuid now dj
        = (Failure 400 ''URLs array is required'' None, dj)
   \<and> (10 < length us \<longrightarrow>
        post_batch (Some us) fmt q mkdir uuid now dj
          = (Failure 400 ''Maximum 10 URLs allowed per batch'' None, dj))
   \<and> (post_batch urls fmt q mkdir uuid now dj = (BatchStarted b ids n, dj') \<longrightarrow>
        (\<exists>us'. urls = Some us' \<and> length us' = n) \<and> 0 < n \<and> n \<le> 10 \<and> length ids = n
        \<and> length dj' \<le> length dj + 10)"
proof -
  have "(\<exists>us'. urls = Some us' \<and> length us' = n) \<and> 0 < n \<and> n \<le> 10 \<and> length ids = n
        \<and> length dj' \<le> length dj + 10"
    if h: "post_batch urls fmt q mkdir uuid now dj = (BatchStarted b ids n, dj')"
  proof -
    from h obtain us' where u: "urls = Some us'" "us' \<noteq> []" "length us' \<le> 10" "mkdir = None"
      by (auto simp: post_batch_def split: option.splits if_splits)
    from h u obtain f' q' where
      "batch_loop us' uuid 1 f' q' (uuid 0) now dj = (ids, dj')" "n = length us'"
      by (auto simp: post_batch_def Let_def split: prod.splits)
    with batch_loop_lengths [of us' uuid 1 f' q' "uuid 0" now dj ids dj'] u
    show ?thesis by auto
  qed
  then show ?thesis by (auto simp: post_batch_def)
qed

theorem batch_size_bound_witness:
  "post_batch (Some (replicate 11 ''https://youtu.be/x'')) None None None (\<lambda>n. ''id'') 1000 []
     = (Failure 400 ''Maximum 10 URLs allowed per batch'' None, [])
   \<and> post_batch (Some [''https://youtu.be/x'', ''https://youtu.be/y'']) None None None
        (\<lambda>n. if n = 0 then ''b'' else if n = 1 then ''j1'' else ''j2'') 1000 []
       = (BatchStarted ''b'' [''j1'', ''j2''] 2,
          [(''j1'', new_download_job ''https://youtu.be/x'' ''mp4'' ''720p'' (Some ''b'') 1000
                      \<lparr>status := Downloading\<rparr>),
           (''j2'', new_download_job ''https://youtu.be/y'' ''mp4'' ''720p'' (Some ''b'') 1000
                      \<lparr>status := Downloading\<rparr>)])
   \<and> length [''j1'', ''j2''] = (2::nat) \<and> (2::nat) \<le> 10"
proof -
  let ?uuid = "\<lambda>n::nat. if n = 0 then ''b'' else if n = 1 then ''j1'' else ''j2''"
  let ?store = "[(''j1'', new_download_job ''https://youtu.be/x'' ''mp4'' ''720p'' (Some ''b'')
                           1000\<lparr>status := Downloading\<rparr>),
                 (''j2'', new_download_job ''https://youtu.be/y'' ''mp4'' ''720p'' (Some ''b'')
                           1000\<lparr>status := Downloading\<rparr>)]"
  have two: "post_batch (Some [''https://youtu.be/x'', ''https://youtu.be/y'']) None None None
               ?uuid 1000 [] = (BatchStarted ''b'' [''j1'', ''j2''] 2, ?store)"
    by (simp add: post_batch_def start_download_def downloadVideo_begin_def spread_set_def
          Let_def)
  have eleven: "10 < length (replicate 11 ''https://youtu.be/x'')"
    by simp
  from batch_size_bound [of None None None "\<lambda>n. ''id''" 1000 "[]"
         "replicate 11 ''https://youtu.be/x''"] eleven
  have a: "post_batch (Some (replicate 11 ''https://youtu.be/x'')) None None None
             (\<lambda>n. ''id'') 1000 []
           = (Failure 400 ''Maximum 10 URLs allowed per batch'' None, [])"
    by blast
  from batch_size_bound [of None None None ?uuid 1000 "[]" "[]"
         "Some [''https://youtu.be/x'', ''https://youtu.be/y'']" "''b''" "[''j1'', ''j2'']" 2
         ?store] two
  have b: "length [''j1'', ''j2''] = (2::nat) \<and> (2::nat) \<le> 10"
    by blast
  from a two b show ?thesis by blast
qed

section \<open>Locating the downloaded file\<close>

lemma downloadedFiles_scan:
  "downloadedFiles jobId allFiles =
     (case List.map_filter (\<lambda>(name, st). case st of Inl msg \<Rightarrow> Some msg | Inr s \<Rightarrow> None)
             allFiles of
        msg # _ \<Rightarrow> Inl msg
      | [] \<Rightarrow>
          Inr (List.map_filter
                 (\<lambda>(name, st). case st of
                      Inl msg \<Rightarrow> None
                    | Inr s \<Rightarrow> if isFile s \<and> str_includes name jobId then Some (name, s)
                               else None)
                 allFiles))"
proof (induction allFiles)
  case Nil
  then show ?case by (simp add: map_filter_simps)
next
  case (Cons e allFiles)
  obtain name st where e: "e = (name, st)" by (cases e)
  show ?case
  proof (cases st)
    case (Inl msg)
    then show ?thesis by (simp add: e map_filter_simps)
  next
    case (Inr s)
    then show ?thesis using Cons.IH
      by (simp add: e map_filter_simps split: list.splits)
  qed
qed

text \<open>
  C7, as the code has it. The tool has resolved and the runner reads the output
  directory. When reading the directory throws, the job becomes \<open>'failed'\<close> with that
  error's message. Otherwise the runner calls \<open>statSync\<close> on every entry in the order of
  the listing: when one of these calls throws, the job becomes \<open>'failed'\<close> with the
  message of the first one that does, whether or not the job's file is listed. When
  none throws, the runner takes the first entry in the order of the listing that is a
  regular file and whose name contains the job id, and the job becomes \<open>'completed'\<close>
  with that file's path and size and progress 100; when no entry matches, the job
  becomes \<open>'failed'\<close> with the error \<open>Downloaded file not found\<close>. Modification times
  are not consulted.
\<close>

theorem first_match_is_output:
  assumes "map_of dj jobId = Some job"
  shows "map_of (job_settled jobId outputDir (Resolved (Inl msg)) now dj) jobId
           = Some (job\<lparr>status := Failed, error := Some msg, endTime := Some now\<rparr>)
       \<and> map_of (job_settled jobId outputDir (Resolved (Inr allFiles)) now dj) jobId
           = Some (case List.map_filter
                          (\<lambda>(name, st). case st of Inl m \<Rightarrow> Some m | Inr s \<Rightarrow> None)
                          allFiles of
                     m # _ \<Rightarrow> job\<lparr>status := Failed, error := Some m, endTime := Some now\<rparr>
                   | [] \<Rightarrow>
                       (case List.map_filter
                               (\<lambda>(name, st). case st of
                                    Inl m \<Rightarrow> None
                                  | Inr s \<Rightarrow> if isFile s \<and> str_includes name jobId
                                             then Some (name, s) else None)
                               allFiles of
                          [] \<Rightarrow> job\<lparr>status := Failed,
                                     error := Some ''Downloaded file not found'',
                                     endTime := Some now\<rparr>
                        | (name, s) # _ \<Rightarrow>
                            job\<lparr>status := Completed,
                                outputFile := Some (path_join outputDir name),
                                fileSize := Some (st_size s), endTime := Some now,
                                progress := 100\<rparr>))"
  using assms
  by (simp add: job_settled_def downloadVideo_settle_def locate_output_def
        downloadedFiles_scan catch_failed_def map_of_spread_set
      split: list.splits)

theorem first_match_is_output_witness:
  "map_of (job_settled ''j1'' ''/dl''
      (Resolved (Inr [(''j1-17.mp4'', Inr \<lparr>isFile = True, st_size = 20, mtimeMs = 100\<rparr>),
                      (''j1-17.webm'', Inr \<lparr>isFile = True, st_size = 10, mtimeMs = 200\<rparr>),
                      (''other-3.mp4'', Inr \<lparr>isFile = True, st_size = 7, mtimeMs = 50\<rparr>)]))
      5000
      [(''j1'', new_download_job ''https://youtu.be/x'' ''mp4'' ''720p'' None 1000
                  \<lparr>status := Downloading\<rparr>)]) ''j1''
   = Some (new_download_job ''https://youtu.be/x'' ''mp4'' ''720p'' None 1000
            \<lparr>status := Completed, outputFile := Some ''/dl/j1-17.mp4'', fileSize := Some 20,
             endTime := Some 5000, progress := 100\<rparr>)
   \<and> map_of (job_settled ''j1'' ''/dl''
      (Resolved (Inr [(''gone.part'', Inl ''ENOENT: no such file or directory''),
                      (''j1-17.mp4'', Inr \<lparr>isFile = True, st_size = 20, mtimeMs = 100\<rparr>)]))
      5000
      [(''j1'', new_download_job ''https://youtu.be/x'' ''mp4'' ''720p'' None 1000
                  \<lparr>status := Downloading\<rparr>)]) ''j1''
   = Some (new_download_job ''https://youtu.be/x'' ''mp4'' ''720p'' None 1000
            \<lparr>status := Failed, error := Some ''ENOENT: no such file or directory'',
             endTime := Some 5000\<rparr>)"
proof -
  let ?dj = "[(''j1'', new_download_job ''https://youtu.be/x'' ''mp4'' ''720p'' None 1000
                  \<lparr>status := Downloading\<rparr>)]"
  have p: "map_of ?dj ''j1'' = Some (new_download_job ''https://youtu.be/x'' ''mp4'' ''720p''
                                       None 1000\<lparr>status := Downloading\<rparr>)"
    by simp
  note r = first_match_is_output [OF p, THEN conjunct2]
  show ?thesis
    by (simp add: r map_filter_simps path_join_def)
qed

text \<open>
  The claim as stated fails: with two matching files listed in the order of their
  names, the older one first, the runner selects the older one.
\<close>

theorem newest_file_not_selected:
  "locate_output ''j1'' ''/dl''
     (Inr [(''j1-17.mp4'', Inr \<lparr>isFile = True, st_size = 20, mtimeMs = 100\<rparr>),
           (''j1-17.webm'', Inr \<lparr>isFile = True, st_size = 10, mtimeMs = 200\<rparr>)])
   = Inr (''/dl/j1-17.mp4'', 20)
   \<and> str_includes ''j1-17.webm'' ''j1''
   \<and> isFile \<lparr>isFile = True, st_size = 10, mtimeMs = 200\<rparr>
   \<and> mtimeMs \<lparr>isFile = True, st_size = 20, mtimeMs = 100\<rparr>
       < mtimeMs \<lparr>isFile = True, st_size = 10, mtimeMs = 200\<rparr>"
  by (simp add: locate_output_def path_join_def)

section \<open>The retention sweeps remove what is old and nothing else\<close>














section \<open>Facts about the life of a job\<close>

lemma history_Cons:
  "history jobId (m # ms) =
     (case map_of m jobId of None \<Rightarrow> history jobId ms | Some j \<Rightarrow> j # history jobId ms)"
  by (cases "map_of m jobId") (simp_all add: history_def)

lemma history_Nil: "history jobId [] = []"
  by (simp add: history_def)

lemma history_replicate:
  "map_of m jobId = Some j \<Longrightarrow> history jobId (replicate n m) = replicate n j"
  by (induction n) (simp_all add: history_Cons history_Nil)

lemma length_run_states: "length (run_states f s es) = Suc (length es)"
  by (induction es arbitrary: s) simp_all

lemma run_states_nonempty: "run_states f s es \<noteq> []"
  by (cases es) simp_all

lemma last_run_states: "last (run_states f s es) = fold f es s"
  by (induction es arbitrary: s) (simp_all add: run_states_nonempty)

lemma progressTimer_idle:
  "map_of dj jobId = Some j \<Longrightarrow> status j \<noteq> Downloading \<Longrightarrow> progressTimer jobId now dj = dj"
  by (simp add: progressTimer_def)

lemma late_ticks:
  "map_of dj jobId = Some j \<Longrightarrow> status j \<noteq> Downloading \<Longrightarrow>
     run_states (dl_step jobId od) dj (map Tick late) = replicate (Suc (length late)) dj"
  by (induction late) (simp_all add: progressTimer_idle)

lemma map_of_progressTimer:
  "map_of dj jobId = Some j \<Longrightarrow> status j = Downloading \<Longrightarrow>
     map_of (progressTimer jobId now dj) jobId
       = Some (j\<lparr>progress := estimatedProgress now (startTime j)\<rparr>)"
  by (simp add: progressTimer_def update_conv')

lemma settled_entry_cases:
  "settled_entry jobId od outcome now j =
     (case outcome of
        Rejected msg \<Rightarrow>
          j\<lparr>status := Failed, error := Some (''yt-dlp failed: '' @ msg), endTime := Some now\<rparr>
      | Resolved listing \<Rightarrow>
          (case locate_output jobId od listing of
             Inl msg \<Rightarrow> j\<lparr>status := Failed, error := Some msg, endTime := Some now\<rparr>
           | Inr (f, sz) \<Rightarrow>
               j\<lparr>status := Completed, outputFile := Some f, fileSize := Some sz,
                  endTime := Some now, progress := 100\<rparr>))"
  by (simp add: settled_entry_def downloadVideo_settle_def map_of_spread_set
      split: tool_outcome.splits sum.splits prod.splits)

lemma map_of_job_settled:
  "map_of dj jobId = Some j \<Longrightarrow>
     map_of (job_settled jobId od outcome now dj) jobId = Some (settled_entry jobId od outcome now j)"
  by (simp add: settled_entry_cases job_settled_def downloadVideo_settle_def catch_failed_def
        map_of_spread_set
      split: tool_outcome.splits sum.splits prod.splits)

lemma settled_entry_terminal: "status (settled_entry jobId od outcome now j) \<noteq> Downloading"
  by (simp add: settled_entry_cases split: tool_outcome.splits sum.splits prod.splits)

lemma run_states_append:
  "run_states f s (xs @ ys) = run_states f s xs @ tl (run_states f (fold f xs s) ys)"
  by (induction xs arbitrary: s) (simp_all, (cases ys; simp))

lemma history_append: "history jobId (a @ b) = history jobId a @ history jobId b"
  by (induction a) (simp_all add: history_Nil history_Cons split: option.splits)

lemma ticks_phase:
  "map_of dj jobId = Some j \<Longrightarrow> status j = Downloading \<Longrightarrow>
     history jobId (run_states (dl_step jobId od) dj (map Tick ticks))
       = j # map (\<lambda>t. j\<lparr>progress := estimatedProgress t (startTime j)\<rparr>) ticks
     \<and> map_of (fold (dl_step jobId od) (map Tick ticks) dj) jobId
       = Some (last (j # map (\<lambda>t. j\<lparr>progress := estimatedProgress t (startTime j)\<rparr>) ticks))"
proof (induction ticks arbitrary: dj j)
  case Nil
  then show ?case by (simp add: history_Cons history_Nil)
next
  case (Cons t ts)
  let ?j = "j\<lparr>progress := estimatedProgress t (startTime j)\<rparr>"
  have 1: "map_of (progressTimer jobId t dj) jobId = Some ?j"
    using Cons.prems by (rule map_of_progressTimer)
  have 2: "status ?j = Downloading" using Cons.prems by simp
  from Cons.IH [OF 1 2] Cons.prems(1) show ?case
    by (simp add: history_Cons)
qed

lemma settled_phase:
  assumes "map_of dj jobId = Some j"
  shows "tl (run_states (dl_step jobId od) dj (Settle outcome now # map Tick late))
           = replicate (Suc (length late)) (job_settled jobId od outcome now dj)"
  using late_ticks [OF map_of_job_settled [OF assms] settled_entry_terminal]
  by simp

lemma life_history:
  assumes "map_of dj jobId = Some j" and "status j = Downloading"
  shows "history jobId (run_states (dl_step jobId od) dj (lifetime ticks fin))
           = j # map (\<lambda>t. j\<lparr>progress := estimatedProgress t (startTime j)\<rparr>) ticks
             @ (case fin of
                  None \<Rightarrow> []
                | Some (outcome, now, late) \<Rightarrow>
                    replicate (Suc (length late))
                      (settled_entry jobId od outcome now
                        (last (j # map (\<lambda>t. j\<lparr>progress := estimatedProgress t (startTime j)\<rparr>)
                                      ticks))))"
proof (cases fin)
  case None
  then show ?thesis using ticks_phase [OF assms, of od ticks] by (simp add: lifetime_def)
next
  case (Some x)
  obtain outcome now late where x: "x = (outcome, now, late)" by (cases x)
  let ?mid = "fold (dl_step jobId od) (map Tick ticks) dj"
  let ?last = "last (j # map (\<lambda>t. j\<lparr>progress := estimatedProgress t (startTime j)\<rparr>) ticks)"
  from ticks_phase [OF assms, of od ticks]
  have h: "history jobId (run_states (dl_step jobId od) dj (map Tick ticks))
             = j # map (\<lambda>t. j\<lparr>progress := estimatedProgress t (startTime j)\<rparr>) ticks"
    and m: "map_of ?mid jobId = Some ?last"
    by simp_all
  have "history jobId (tl (run_states (dl_step jobId od) ?mid (Settle outcome now # map Tick late)))
          = replicate (Suc (length late)) (settled_entry jobId od outcome now ?last)"
    unfolding settled_phase [OF m]
    by (rule history_replicate) (rule map_of_job_settled [OF m])
  with h show ?thesis
    by (simp add: Some x lifetime_def run_states_append history_append del: run_states.simps)
qed

lemma estimatedProgress_mono:
  "t \<le> t' \<Longrightarrow> estimatedProgress t start \<le> estimatedProgress t' start"
  by (simp add: estimatedProgress_def zdiv_mono1 min.coboundedI2)

lemma estimatedProgress_bounds:
  "estimatedProgress t start \<le> 90" "start \<le> t \<Longrightarrow> 0 \<le> estimatedProgress t start"
  by (simp_all add: estimatedProgress_def pos_imp_zdiv_nonneg_iff)

lemma map_of_start_download:
  "map_of (start_download jobId u fmt q batch t0 dj) jobId
     = Some (new_download_job u fmt q batch t0\<lparr>status := Downloading\<rparr>)"
  by (simp add: start_download_def downloadVideo_begin_def map_of_spread_set update_conv')


lemma estimatedProgress_start: "estimatedProgress t0 t0 = 0"
  by (simp add: estimatedProgress_def)

lemma sorted_estimates:
  "sorted ts \<Longrightarrow> sorted (map (\<lambda>t. estimatedProgress t start) ts)"
  by (induction ts) (auto simp: estimatedProgress_mono)

lemma download_history:
  "history jobId (download_life jobId u fmt q batch t0 od ticks fin dj)
     = map (\<lambda>t. new_download_job u fmt q batch t0
                   \<lparr>status := Downloading, progress := estimatedProgress t t0\<rparr>) (t0 # ticks)
       @ (case fin of
            None \<Rightarrow> []
          | Some (outcome, now, late) \<Rightarrow>
              replicate (Suc (length late))
                (settled_entry jobId od outcome now
                   (new_download_job u fmt q batch t0
                      \<lparr>status := Downloading,
                       progress := estimatedProgress (last (t0 # ticks)) t0\<rparr>)))"
proof -
  let ?j = "new_download_job u fmt q batch t0\<lparr>status := Downloading\<rparr>"
  have s: "startTime ?j = t0" "status ?j = Downloading"
    by (simp_all add: new_download_job_def)
  have j: "?j = ?j\<lparr>progress := estimatedProgress t0 t0\<rparr>"
    by (simp add: new_download_job_def estimatedProgress_start)
  have l: "last (?j # map (\<lambda>t. ?j\<lparr>progress := estimatedProgress t (startTime ?j)\<rparr>) ticks)
             = ?j\<lparr>progress := estimatedProgress (last (t0 # ticks)) t0\<rparr>"
    using j by (cases ticks rule: rev_cases) (simp_all add: s)
  show ?thesis
    unfolding download_life_def
      life_history [OF map_of_start_download s(2)] l
    using j by (simp add: s)
qed

lemma settled_entry_progress:
  "progress j \<le> 90 \<Longrightarrow> status j = Downloading \<Longrightarrow> error j = None \<Longrightarrow> outputFile j = None \<Longrightarrow> fileSize j = None \<Longrightarrow>
   (status (settled_entry jobId od outcome now j) = Completed
      \<and> progress (settled_entry jobId od outcome now j) = 100
      \<and> error (settled_entry jobId od outcome now j) = None
      \<and> outputFile (settled_entry jobId od outcome now j) \<noteq> None
      \<and> fileSize (settled_entry jobId od outcome now j) \<noteq> None)
   \<or> (status (settled_entry jobId od outcome now j) = Failed
      \<and> progress (settled_entry jobId od outcome now j) = progress j
      \<and> error (settled_entry jobId od outcome now j) \<noteq> None
      \<and> outputFile (settled_entry jobId od outcome now j) = None
      \<and> fileSize (settled_entry jobId od outcome now j) = None)"
  by (simp add: settled_entry_cases split: tool_outcome.splits sum.splits prod.splits)

lemma sorted_le_last: "sorted xs \<Longrightarrow> x \<in> set xs \<Longrightarrow> x \<le> last xs"
  for xs :: "int list"
  by (induction xs) auto

lemma download_progress_facts:
  assumes "sorted (t0 # ticks)"
  shows "length (history jobId (download_life jobId u fmt q batch t0 od ticks fin dj))
           = length (download_life jobId u fmt q batch t0 od ticks fin dj)"
    and "sorted (map progress (history jobId (download_life jobId u fmt q batch t0 od ticks fin dj)))"
    and "\<forall>j \<in> set (history jobId (download_life jobId u fmt q batch t0 od ticks fin dj)).
           0 \<le> progress j \<and> progress j \<le> 100 \<and> (progress j = 100 \<longleftrightarrow> status j = Completed)"
proof -
  let ?J = "new_download_job u fmt q batch t0"
  let ?F = "\<lambda>t. ?J\<lparr>status := Downloading, progress := estimatedProgress t t0\<rparr>"
  let ?S = "\<lambda>outcome now. settled_entry jobId od outcome now (?F (last (t0 # ticks)))"
  let ?H = "history jobId (download_life jobId u fmt q batch t0 od ticks fin dj)"
  have H: "?H = map ?F (t0 # ticks) @
             (case fin of None \<Rightarrow> []
              | Some (outcome, now, late) \<Rightarrow> replicate (Suc (length late)) (?S outcome now))"
    by (rule download_history)
  have ge: "t0 \<le> t" if "t \<in> set (t0 # ticks)" for t
    using assms that by auto
  have le_last: "t \<le> last (t0 # ticks)" if "t \<in> set (t0 # ticks)" for t
    using assms that by (rule sorted_le_last)
  have F: "0 \<le> progress (?F t) \<and> progress (?F t) \<le> 90 \<and> status (?F t) = Downloading
           \<and> progress (?F t) \<le> progress (?F (last (t0 # ticks)))"
    if "t \<in> set (t0 # ticks)" for t
    using ge [OF that] le_last [OF that]
    by (simp add: estimatedProgress_bounds estimatedProgress_mono)
  have lastF: "progress (?F (last (t0 # ticks))) \<le> 90" "0 \<le> progress (?F (last (t0 # ticks)))"
    using F [of "last (t0 # ticks)"] by simp_all
  have S: "(status (?S outcome now) = Completed \<and> progress (?S outcome now) = 100)
           \<or> (status (?S outcome now) = Failed
               \<and> progress (?S outcome now) = progress (?F (last (t0 # ticks))))"
    for outcome now
    using settled_entry_progress [of "?F (last (t0 # ticks))" jobId od outcome now] lastF(1)
    by (auto simp: new_download_job_def)
  show "length ?H = length (download_life jobId u fmt q batch t0 od ticks fin dj)"
    unfolding H by (simp add: download_life_def length_run_states lifetime_def split: option.splits)
  have sm: "sorted (map progress (map ?F (t0 # ticks)))"
    using sorted_estimates [OF assms, of t0] by (simp add: comp_def del: sorted_simps(2))
  show "sorted (map progress ?H)"
  proof (cases fin)
    case None
    then show ?thesis using sm unfolding H by simp
  next
    case (Some x)
    obtain outcome now late where x: "x = (outcome, now, late)" by (cases x)
    have le100: "estimatedProgress t t0 \<le> 100" for t
      using estimatedProgress_bounds(1) [of t t0] by linarith
    have "\<forall>a \<in> set (map progress (map ?F (t0 # ticks))). a \<le> progress (?S outcome now)"
      using S [of outcome now] F lastF by (auto simp: le100 simp del: last.simps)
    with sm show ?thesis unfolding Some x download_history
      by (auto simp: sorted_append simp del: last.simps)
  qed
  show "\<forall>j \<in> set ?H. 0 \<le> progress j \<and> progress j \<le> 100
           \<and> (progress j = 100 \<longleftrightarrow> status j = Completed)"
  proof
    fix j assume "j \<in> set ?H"
    then consider t where "t \<in> set (t0 # ticks)" "j = ?F t"
      | outcome now where "j = ?S outcome now"
      unfolding H by (auto split: option.splits simp del: last.simps)
    then show "0 \<le> progress j \<and> progress j \<le> 100 \<and> (progress j = 100 \<longleftrightarrow> status j = Completed)"
    proof cases
      case 1
      with F [OF 1(1)] show ?thesis by simp
    next
      case 2
      with S [of outcome now] lastF show ?thesis by auto
    qed
  qed
qed

lemma jobs_on_progress: "jobs (on_progress cid p svc) = jobs svc"
  by (simp add: on_progress_def)

lemma map_of_on_progress:
  "\<exists>p'. map_of (progressTracking (on_progress cid p svc)) cid = Some p'"
  by (simp add: on_progress_def update_conv')

lemma conversion_states:
  assumes "map_of (jobs svc) cid = Some j" and "job_status j = Processing"
    and "job_error j = None" and "map_of (progressTracking svc) cid = Some p"
  shows "\<forall>svc' \<in> set (run_states (ffmpeg_step cid) svc (conversion_lifetime ps fin)).
           \<exists>j' p'. map_of (jobs svc') cid = Some j' \<and> map_of (progressTracking svc') cid = Some p'
             \<and> job_outputFile j' = job_outputFile j
             \<and> (job_error j' \<noteq> None \<longleftrightarrow> job_status j' = Failed)
             \<and> (job_status j' = Completed \<longrightarrow> percent p' = 100)"
  using assms
proof (induction ps arbitrary: svc p)
  case Nil
  show ?case
  proof (cases fin)
    case None
    with Nil show ?thesis by (simp add: conversion_lifetime_def)
  next
    case (Some r)
    with Nil show ?thesis
      by (cases r) (simp_all add: conversion_lifetime_def on_end_def on_error_def map_of_spread_set)
  qed
next
  case (Cons e ps)
  obtain p' where p': "map_of (progressTracking (on_progress cid e svc)) cid = Some p'"
    using map_of_on_progress by blast
  have j: "map_of (jobs (on_progress cid e svc)) cid = Some j"
    using Cons.prems(1) by (simp add: jobs_on_progress)
  from Cons.IH [OF j Cons.prems(2,3) p'] Cons.prems
  show ?case by (simp add: conversion_lifetime_def)
qed

lemma conversion_begin_entries:
  "map_of (jobs (convertVideo_begin od input fmt cid t0 svc)) cid
     = Some \<lparr>job_status = Processing, inputFile = input,
             job_outputFile = path_join od (cid @ ''.'' @ fmt), job_startTime = t0,
             job_type = ''video_conversion'', job_error = None, job_endTime = None\<rparr>"
  "\<exists>p. map_of (progressTracking (convertVideo_begin od input fmt cid t0 svc)) cid = Some p"
  by (simp_all add: convertVideo_begin_def update_conv')

lemma jobs_fold_progress:
  "jobs (fold (ffmpeg_step cid) (map Progress ps) svc) = jobs svc"
  by (induction ps arbitrary: svc) (simp_all add: jobs_on_progress)

lemma conversion_error_entry:
  "map_of (jobs (last (conversion_life od input fmt cid t0 ps (Some (Errored msg now)) svc))) cid
     = Some \<lparr>job_status = Failed, inputFile = input,
             job_outputFile = path_join od (cid @ ''.'' @ fmt), job_startTime = t0,
             job_type = ''video_conversion'', job_error = Some msg, job_endTime = Some now\<rparr>"
  by (simp add: conversion_life_def last_run_states conversion_lifetime_def jobs_fold_progress
        on_error_def map_of_spread_set conversion_begin_entries)

lemma fold_late_ticks:
  "map_of dj jobId = Some j \<Longrightarrow> status j \<noteq> Downloading \<Longrightarrow>
     fold (dl_step jobId od) (map Tick late) dj = dj"
  by (induction late) (simp_all add: progressTimer_idle)

lemma final_entry:
  "map_of (last (download_life jobId u fmt q batch t0 od ticks (Some (outcome, now, late)) dj)) jobId
     = Some (settled_entry jobId od outcome now
               (new_download_job u fmt q batch t0
                  \<lparr>status := Downloading, progress := estimatedProgress (last (t0 # ticks)) t0\<rparr>))"
proof -
  let ?j = "new_download_job u fmt q batch t0\<lparr>status := Downloading\<rparr>"
  let ?s0 = "start_download jobId u fmt q batch t0 dj"
  let ?mid = "fold (dl_step jobId od) (map Tick ticks) ?s0"
  have s: "startTime ?j = t0" "status ?j = Downloading"
    by (simp_all add: new_download_job_def)
  have j: "?j = ?j\<lparr>progress := estimatedProgress t0 t0\<rparr>"
    by (simp add: new_download_job_def estimatedProgress_start)
  have l: "last (?j # map (\<lambda>t. ?j\<lparr>progress := estimatedProgress t (startTime ?j)\<rparr>) ticks)
             = ?j\<lparr>progress := estimatedProgress (last (t0 # ticks)) t0\<rparr>"
    using j by (cases ticks rule: rev_cases) (simp_all add: s)
  have "map_of ?mid jobId
          = Some (last (?j # map (\<lambda>t. ?j\<lparr>progress := estimatedProgress t (startTime ?j)\<rparr>)
                                 ticks))"
    by (rule ticks_phase [OF map_of_start_download s(2), THEN conjunct2])
  then have m: "map_of ?mid jobId
                  = Some (?j\<lparr>progress := estimatedProgress (last (t0 # ticks)) t0\<rparr>)"
    by (simp only: l)
  have "fold (dl_step jobId od) (lifetime ticks (Some (outcome, now, late))) ?s0
          = fold (dl_step jobId od) (map Tick late) (job_settled jobId od outcome now ?mid)"
    by (simp add: lifetime_def)
  also have "\<dots> = job_settled jobId od outcome now ?mid"
    by (rule fold_late_ticks [OF map_of_job_settled [OF m] settled_entry_terminal])
  finally show ?thesis
    using map_of_job_settled [OF m] by (simp add: download_life_def last_run_states)
qed

lemma download_presence:
  "\<forall>j \<in> set (history jobId (download_life jobId u fmt q batch t0 od ticks fin dj)).
     (outputFile j \<noteq> None \<longleftrightarrow> status j = Completed)
     \<and> (fileSize j \<noteq> None \<longleftrightarrow> status j = Completed)
     \<and> (error j \<noteq> None \<longleftrightarrow> status j = Failed)"
proof
  let ?J = "new_download_job u fmt q batch t0"
  let ?F = "\<lambda>t. ?J\<lparr>status := Downloading, progress := estimatedProgress t t0\<rparr>"
  let ?S = "\<lambda>outcome now. settled_entry jobId od outcome now (?F (last (t0 # ticks)))"
  fix j assume "j \<in> set (history jobId (download_life jobId u fmt q batch t0 od ticks fin dj))"
  then consider t where "j = ?F t" | outcome now where "j = ?S outcome now"
    unfolding download_history by (auto split: option.splits simp del: last.simps)
  then show "(outputFile j \<noteq> None \<longleftrightarrow> status j = Completed)
     \<and> (fileSize j \<noteq> None \<longleftrightarrow> status j = Completed)
     \<and> (error j \<noteq> None \<longleftrightarrow> status j = Failed)"
  proof cases
    case 1
    then show ?thesis by (simp add: new_download_job_def)
  next
    case 2
    from settled_entry_progress [of "?F (last (t0 # ticks))" jobId od outcome now]
      estimatedProgress_bounds(1) [of "last (t0 # ticks)" t0]
    show ?thesis unfolding 2 by (auto simp: new_download_job_def simp del: last.simps)
  qed
qed

lemma conversion_presence:
  "\<forall>svc' \<in> set (conversion_life od input fmt cid t0 ps fin svc).
     \<exists>j p. map_of (jobs svc') cid = Some j \<and> map_of (progressTracking svc') cid = Some p
       \<and> job_outputFile j = path_join od (cid @ ''.'' @ fmt)
       \<and> (job_error j \<noteq> None \<longleftrightarrow> job_status j = Failed)
       \<and> (job_status j = Completed \<longrightarrow> percent p = 100)"
proof -
  obtain p where p: "map_of (progressTracking (convertVideo_begin od input fmt cid t0 svc)) cid = Some p"
    using conversion_begin_entries(2) by blast
  from conversion_states [OF conversion_begin_entries(1) _ _ p, of ps fin]
  show ?thesis by (simp add: conversion_life_def)
qed

lemma downloadedFiles_stat_error:
  "downloadedFiles jobId (before @ (name, Inl m) # rest)
     = (case downloadedFiles jobId before of Inl m' \<Rightarrow> Inl m' | Inr found \<Rightarrow> Inl m)"
proof (induction before)
  case Nil
  then show ?case by simp
next
  case (Cons e before)
  obtain name' st where e: "e = (name', st)" by (cases e)
  show ?case using Cons.IH
    by (cases st; cases "downloadedFiles jobId before") (simp_all add: e)
qed

section \<open>Progress over the life of a job\<close>

text \<open>
  What holds of the recorded progress. For a download job whose timer ticks read a clock
  that does not run backwards (\<open>t0\<close> is the start time, \<open>ticks\<close> the times of the ticks
  while the tool runs): the job has an entry in every store of its life, its progress
  values are non-decreasing from store to store, every value lies in 0..100, and the
  value is 100 exactly in the stores where the status is \<open>'completed'\<close> (the completing
  write sets both). For a conversion job, in every state of its life the job and its
  snapshot are present, and whenever the status is \<open>'completed'\<close> the recorded percent
  is 100.
\<close>

lemma download_progress_monotone:
  assumes "sorted (t0 # ticks)"
  shows "length (history jobId (download_life jobId u fmt q batch t0 od ticks fin dj))
           = length (download_life jobId u fmt q batch t0 od ticks fin dj)
       \<and> sorted (map progress (history jobId (download_life jobId u fmt q batch t0 od ticks fin dj)))
       \<and> (\<forall>j \<in> set (history jobId (download_life jobId u fmt q batch t0 od ticks fin dj)).
             0 \<le> progress j \<and> progress j \<le> 100
             \<and> (progress j = 100 \<longleftrightarrow> status j = Completed))
       \<and> (\<forall>svc' \<in> set (conversion_life cod input cfmt cid c0 ps cfin svc).
             \<exists>j p. map_of (jobs svc') cid = Some j \<and> map_of (progressTracking svc') cid = Some p
               \<and> (job_status j = Completed \<longrightarrow> percent p = 100))"
proof -
  have "\<forall>svc' \<in> set (conversion_life cod input cfmt cid c0 ps cfin svc).
             \<exists>j p. map_of (jobs svc') cid = Some j \<and> map_of (progressTracking svc') cid = Some p
               \<and> (job_status j = Completed \<longrightarrow> percent p = 100)"
    using conversion_presence [of cod input cfmt cid c0 ps cfin svc] by blast
  then show ?thesis
    using download_progress_facts [OF assms, of jobId u fmt q batch od fin dj] by blast
qed

lemma download_progress_monotone_witness:
  "sorted (1000 # [2000, 3500 :: int])
   \<and> map progress
        (history ''j1''
           (download_life ''j1'' ''https://youtu.be/x'' ''mp4'' ''720p'' None 1000 ''/dl''
              [2000, 3500]
              (Some (Resolved (Inr [(''j1-17.mp4'',
                                      Inr \<lparr>isFile = True, st_size = 20, mtimeMs = 200\<rparr>)]),
                     9000, []))
              []))
       = [0, 2, 4, 100]
   \<and> sorted [0, 2, 4, 100 :: int]"
proof -
  have h: "sorted (1000 # [2000, 3500 :: int])" by simp
  have e: "map progress
        (history ''j1''
           (download_life ''j1'' ''https://youtu.be/x'' ''mp4'' ''720p'' None 1000 ''/dl''
              [2000, 3500]
              (Some (Resolved (Inr [(''j1-17.mp4'',
                                      Inr \<lparr>isFile = True, st_size = 20, mtimeMs = 200\<rparr>)]),
                     9000, []))
              []))
       = [0, 2, 4, 100]"
    by (simp add: download_history settled_entry_cases locate_output_def
          new_download_job_def estimatedProgress_def)
  note s = download_progress_monotone [OF h, THEN conjunct2, THEN conjunct1]
  have "sorted (map progress
        (history ''j1''
           (download_life ''j1'' ''https://youtu.be/x'' ''mp4'' ''720p'' None 1000 ''/dl''
              [2000, 3500]
              (Some (Resolved (Inr [(''j1-17.mp4'',
                                      Inr \<lparr>isFile = True, st_size = 20, mtimeMs = 200\<rparr>)]),
                     9000, []))
              [])))"
    by (rule s)
  then have "sorted [0, 2, 4, 100 :: int]" unfolding e .
  with h e show ?thesis by (intro conjI)
qed

text \<open>
  C2, on the code. The claim does not hold of conversion jobs. The \<open>'progress'\<close>
  callback of \<open>convertVideo\<close> stores the rounded report as it comes, so a report of 99.7
  per cent is recorded as 100 while the job's status is still \<open>'processing'\<close>: the
  recorded percent reaches 100 without the job being completed, although the \<open>'end'\<close>
  callback is what writes 100 and the download estimator stops at 90 to keep 100 for
  completion.
\<close>

theorem conversion_percent_100_while_processing:
  "map (\<lambda>svc. (map_option job_status (map_of (jobs svc) ''c1''),
                map_option percent (map_of (progressTracking svc) ''c1'')))
     (conversion_life ''/out'' ''/uploads/a.avi'' ''mp4'' ''c1'' 1000
        [\<lparr>ev_percent = Some (997 / 10), ev_currentFps = None, ev_currentKbps = None,
          ev_targetSize = None, ev_timemark = None\<rparr>]
        None \<lparr>jobs = [], progressTracking = []\<rparr>)
     = [(Some Processing, Some 0), (Some Processing, Some 100)]"
  by (simp add: conversion_life_def conversion_lifetime_def convertVideo_begin_def
        on_progress_def Math_round_def or_zero_def floor_eq_iff)

section \<open>Presence of output and error\<close>

text \<open>
  What holds of the two fields. In every store of a download job's life, the output file
  and the file size are present exactly when the status is \<open>'completed'\<close>, and the error
  is present exactly when the status is \<open>'failed'\<close>. In every state of a conversion
  job's life, the error is present exactly when the status is \<open>'failed'\<close>.
\<close>

lemma output_and_error_presence:
  "(\<forall>j \<in> set (history jobId (download_life jobId u fmt q batch t0 od ticks fin dj)).
      (outputFile j \<noteq> None \<longleftrightarrow> status j = Completed)
      \<and> (fileSize j \<noteq> None \<longleftrightarrow> status j = Completed)
      \<and> (error j \<noteq> None \<longleftrightarrow> status j = Failed))
   \<and> (\<forall>svc' \<in> set (conversion_life cod input cfmt cid c0 ps cfin svc).
        \<exists>j. map_of (jobs svc') cid = Some j
          \<and> (job_error j \<noteq> None \<longleftrightarrow> job_status j = Failed))"
proof -
  have "\<forall>svc' \<in> set (conversion_life cod input cfmt cid c0 ps cfin svc).
        \<exists>j. map_of (jobs svc') cid = Some j
          \<and> (job_error j \<noteq> None \<longleftrightarrow> job_status j = Failed)"
    using conversion_presence [of cod input cfmt cid c0 ps cfin svc] by blast
  with download_presence [of jobId u fmt q batch t0 od ticks fin dj]
  show ?thesis by blast
qed

lemma output_and_error_presence_witness:
  "new_download_job ''https://youtu.be/x'' ''mp4'' ''720p'' None 1000
     \<lparr>status := Completed, outputFile := Some ''/dl/j1-17.mp4'', fileSize := Some 20,
      endTime := Some 9000, progress := 100\<rparr>
     \<in> set (history ''j1''
           (download_life ''j1'' ''https://youtu.be/x'' ''mp4'' ''720p'' None 1000 ''/dl''
              [2000, 3500]
              (Some (Resolved (Inr [(''j1-17.mp4'',
                                      Inr \<lparr>isFile = True, st_size = 20, mtimeMs = 200\<rparr>)]),
                     9000, []))
              []))
   \<and> (outputFile (new_download_job ''https://youtu.be/x'' ''mp4'' ''720p'' None 1000
          \<lparr>status := Completed, outputFile := Some ''/dl/j1-17.mp4'', fileSize := Some 20,
           endTime := Some 9000, progress := 100\<rparr>) \<noteq> None)
       = (status (new_download_job ''https://youtu.be/x'' ''mp4'' ''720p'' None 1000
          \<lparr>status := Completed, outputFile := Some ''/dl/j1-17.mp4'', fileSize := Some 20,
           endTime := Some 9000, progress := 100\<rparr>) = Completed)"
proof -
  let ?J = "new_download_job ''https://youtu.be/x'' ''mp4'' ''720p'' None 1000
     \<lparr>status := Completed, outputFile := Some ''/dl/j1-17.mp4'', fileSize := Some 20,
      endTime := Some 9000, progress := 100\<rparr>"
  have mem: "?J \<in> set (history ''j1''
           (download_life ''j1'' ''https://youtu.be/x'' ''mp4'' ''720p'' None 1000 ''/dl''
              [2000, 3500]
              (Some (Resolved (Inr [(''j1-17.mp4'',
                                      Inr \<lparr>isFile = True, st_size = 20, mtimeMs = 200\<rparr>)]),
                     9000, []))
              []))"
    by (simp add: download_history settled_entry_cases locate_output_def path_join_def
          new_download_job_def)
  note p = output_and_error_presence [THEN conjunct1, rule_format, OF mem, THEN conjunct1]
  from mem p show ?thesis by (intro conjI)
qed

text \<open>
  The download routes serve a file only for a job whose status is \<open>'completed'\<close>.
\<close>

lemma unfinished_download_file_not_served:
  "map_of dj jobId = Some j \<Longrightarrow> status j \<noteq> Completed \<Longrightarrow>
     get_download_file jobId disk dj = Failure 404 ''File not ready or job not found'' None"
  by (simp add: get_download_file_def)

text \<open>
  C3, on the code. The claim does not hold of conversion jobs. \<open>getOutputFile\<close> returns
  the output path of any job that is in the registry, and \<open>GET /download/:jobId\<close> of
  the conversion routes sends the file at that path when it is on the disk, without
  looking at the status: a conversion that is still \<open>'processing'\<close> and one that has
  \<open>'failed'\<close> both expose the (partial) output file.
\<close>

theorem running_conversion_file_served:
  "map_option r_status
     (getProgress ''c1''
        (convertVideo_begin ''/out'' ''/uploads/a.avi'' ''mp4'' ''c1'' 1000
           \<lparr>jobs = [], progressTracking = []\<rparr>)) = Some Processing
   \<and> getOutputFile ''c1''
       (convertVideo_begin ''/out'' ''/uploads/a.avi'' ''mp4'' ''c1'' 1000
          \<lparr>jobs = [], progressTracking = []\<rparr>) = Some ''/out/c1.mp4''
   \<and> get_conversion_file ''c1'' {''/out/c1.mp4''}
       (convertVideo_begin ''/out'' ''/uploads/a.avi'' ''mp4'' ''c1'' 1000
          \<lparr>jobs = [], progressTracking = []\<rparr>) = SendFile ''c1.mp4'' ''/out/c1.mp4''
   \<and> map_option r_status
       (getProgress ''c1''
          (on_error ''c1'' ''ffmpeg exited with code 1'' 2000
             (convertVideo_begin ''/out'' ''/uploads/a.avi'' ''mp4'' ''c1'' 1000
                \<lparr>jobs = [], progressTracking = []\<rparr>))) = Some Failed
   \<and> get_conversion_file ''c1'' {''/out/c1.mp4''}
       (on_error ''c1'' ''ffmpeg exited with code 1'' 2000
          (convertVideo_begin ''/out'' ''/uploads/a.avi'' ''mp4'' ''c1'' 1000
             \<lparr>jobs = [], progressTracking = []\<rparr>)) = SendFile ''c1.mp4'' ''/out/c1.mp4''"
  by (simp add: getOutputFile_def getProgress_def get_conversion_file_def
        convertVideo_begin_def on_error_def spread_set_def path_join_def basename_def)

section \<open>Failures end in the failed status\<close>

text \<open>
  C5. Whatever ticks came before and whatever ticks of the timer come after: when the
  tool rejects with message \<open>m\<close>, the download job's last entry has status \<open>'failed'\<close>,
  the error \<open>yt-dlp failed: m\<close> and an end time; when the tool resolves and locating the
  output throws \<open>msg\<close>, the last entry has status \<open>'failed'\<close>, the error \<open>msg\<close> and an
  end time. Locating the output throws when reading the directory throws, when the first
  failing \<open>statSync\<close> of the scan throws, and (with \<open>Downloaded file not found\<close>) when the
  directory is empty. When the transcoder emits \<open>'error'\<close> with message \<open>msg\<close>, the
  conversion job's last entry has status \<open>'failed'\<close>, the error \<open>msg\<close> and an end time,
  and the request handler answers 500 with that message.
\<close>

theorem failures_end_failed:
  "map_of (last (download_life jobId u fmt q batch t0 od ticks
                   (Some (Rejected m, now, late)) dj)) jobId
     = Some (new_download_job u fmt q batch t0
               \<lparr>status := Failed, progress := estimatedProgress (last (t0 # ticks)) t0,
                error := Some (''yt-dlp failed: '' @ m), endTime := Some now\<rparr>)
   \<and> (locate_output jobId od listing = Inl msg \<longrightarrow>
        map_of (last (download_life jobId u fmt q batch t0 od ticks
                        (Some (Resolved listing, now, late)) dj)) jobId
          = Some (new_download_job u fmt q batch t0
                    \<lparr>status := Failed, progress := estimatedProgress (last (t0 # ticks)) t0,
                     error := Some msg, endTime := Some now\<rparr>))
   \<and> locate_output jobId od (Inl m) = Inl m
   \<and> locate_output jobId od (Inr []) = Inl ''Downloaded file not found''
   \<and> locate_output jobId od (Inr (before @ (name, Inl m) # rest))
        = (case downloadedFiles jobId before of Inl m' \<Rightarrow> Inl m' | Inr _ \<Rightarrow> Inl m)
   \<and> map_of (jobs (last (conversion_life cod input cfmt cid c0 ps (Some (Errored msg now)) svc))) cid
        = Some \<lparr>job_status = Failed, inputFile = input,
                job_outputFile = path_join cod (cid @ ''.'' @ cfmt), job_startTime = c0,
                job_type = ''video_conversion'', job_error = Some msg, job_endTime = Some now\<rparr>
   \<and> fst (post_video cod input vfmt cid c0 ps (Errored msg now) svc)
        = Failure 500 ''Video conversion failed'' (Some msg)"
proof -
  have a: "locate_output jobId od (Inr (before @ (name, Inl m) # rest))
        = (case downloadedFiles jobId before of Inl m' \<Rightarrow> Inl m' | Inr _ \<Rightarrow> Inl m)"
    unfolding locate_output_def sum.case downloadedFiles_stat_error
    by (cases "downloadedFiles jobId before") simp_all
  have b: "locate_output jobId od (Inl m) = Inl m"
    "locate_output jobId od (Inr []) = Inl ''Downloaded file not found''"
    by (simp_all add: locate_output_def)
  show ?thesis
    by (simp add: final_entry settled_entry_cases conversion_error_entry a b post_video_def
          new_download_job_def del: last.simps)
qed

theorem failures_end_failed_witness:
  "map_of (last (download_life ''j1'' ''https://youtu.be/x'' ''mp4'' ''720p'' None 1000 ''/dl''
                   [2000, 3500]
                   (Some (Resolved (Inr [(''other-3.mp4'',
                                           Inr \<lparr>isFile = True, st_size = 7, mtimeMs = 50\<rparr>)]),
                          9000, [9500]))
                   [])) ''j1''
   = Some (new_download_job ''https://youtu.be/x'' ''mp4'' ''720p'' None 1000
             \<lparr>status := Failed, progress := 4, error := Some ''Downloaded file not found'',
              endTime := Some 9000\<rparr>)"
proof -
  have l: "locate_output ''j1'' ''/dl''
             (Inr [(''other-3.mp4'', Inr \<lparr>isFile = True, st_size = 7, mtimeMs = 50\<rparr>)])
           = Inl ''Downloaded file not found''"
    by (simp add: locate_output_def)
  note f = failures_end_failed [THEN conjunct2, THEN conjunct1, rule_format, OF l]
  have "map_of (last (download_life ''j1'' ''https://youtu.be/x'' ''mp4'' ''720p'' None 1000
                   ''/dl'' [2000, 3500]
                   (Some (Resolved (Inr [(''other-3.mp4'',
                                           Inr \<lparr>isFile = True, st_size = 7, mtimeMs = 50\<rparr>)]),
                          9000, [9500]))
                   [])) ''j1''
   = Some (new_download_job ''https://youtu.be/x'' ''mp4'' ''720p'' None 1000
             \<lparr>status := Failed, progress := estimatedProgress (last (1000 # [2000, 3500])) 1000,
              error := Some ''Downloaded file not found'', endTime := Some 9000\<rparr>)"
    by (rule f)
  then show ?thesis by (simp add: estimatedProgress_def)
qed

section \<open>What a caller sees when a job is created\<close>

text \<open>
  C4, on the code. \<open>POST /\<close> of the download routes answers with the job id while the
  job's status is \<open>'downloading'\<close>.
\<close>

lemma download_answers_while_running:
  "fst (post_download None jobId u fmt q now dj) = DownloadStarted jobId
   \<and> map_option status (map_of (snd (post_download None jobId u fmt q now dj)) jobId)
       = Some Downloading"
  by (simp add: post_download_def map_of_start_download)


text \<open>
  \<open>POST /video\<close> awaits the conversion: for a transcoder run that ends at time 9000 the
  answer with the job id (message \<open>Video conversion started\<close>) is produced when the job
  is already \<open>'completed'\<close> with percent 100.
\<close>

theorem conversion_answers_after_completion:
  "post_video ''/out'' ''/uploads/a.avi'' None ''c1'' 1000 [] (Ended 9000)
     \<lparr>jobs = [], progressTracking = []\<rparr>
   = (ConversionStarted ''c1'' ''/out/c1.mp4'',
      \<lparr>jobs = [(''c1'', \<lparr>job_status = Completed, inputFile = ''/uploads/a.avi'',
                          job_outputFile = ''/out/c1.mp4'', job_startTime = 1000,
                          job_type = ''video_conversion'', job_error = None,
                          job_endTime = Some 9000\<rparr>)],
        progressTracking = [(''c1'', \<lparr>percent = 100, currentFps = 0, currentKbps = 0,
                                      targetSize = 0, timemark = ''00:00:00.00''\<rparr>)]\<rparr>)"
  by (simp add: post_video_def conversion_lifetime_def convertVideo_begin_def on_end_def
        spread_set_def or_default_def path_join_def)

end
